theory Spec2Isabelle
  imports Complex_Main "HOL-Library.Word"
begin

section \<open>Strings and thrown values of the host language\<close>

text \<open>
  A TypeScript string is a sequence of UTF-16 code units; \<open>length\<close>, \<open>substring\<close> and
  \<open>trim\<close> count and cut code units. String literals of the source that are pure ASCII
  are written with \<open>lit\<close>.
\<close>

type_synonym jsstring = "16 word list"

definition lit :: "string \<Rightarrow> jsstring" where
  "lit s = map (\<lambda>c. of_nat (of_char c)) s"

text \<open>
  \<open>String.prototype.trim\<close> removes ECMAScript WhiteSpace and LineTerminator code units
  from both ends: TAB, LF, VT, FF, CR, SP, NBSP, U+1680, U+2000..U+200A, U+2028, U+2029,
  U+202F, U+205F, U+3000 and U+FEFF.
\<close>

definition isWhiteSpace :: "16 word \<Rightarrow> bool" where
  "isWhiteSpace c \<longleftrightarrow>
     c = 0x9 \<or> c = 0xA \<or> c = 0xB \<or> c = 0xC \<or> c = 0xD \<or> c = 0x20 \<or> c = 0xA0 \<or>
     c = 0x1680 \<or> (0x2000 \<le> c \<and> c \<le> 0x200A) \<or> c = 0x2028 \<or> c = 0x2029 \<or>
     c = 0x202F \<or> c = 0x205F \<or> c = 0x3000 \<or> c = 0xFEFF"

definition trim :: "jsstring \<Rightarrow> jsstring" where
  "trim s = rev (dropWhile isWhiteSpace (rev (dropWhile isWhiteSpace s)))"

text \<open>Truthiness of a string (\<open>if (s)\<close>, \<open>s && ...\<close>, \<open>!s\<close>): the empty string is falsy.\<close>

definition truthy :: "jsstring \<Rightarrow> bool" where
  "truthy s \<longleftrightarrow> s \<noteq> []"

text \<open>Truthiness of a \<open>string | null\<close> or \<open>string | undefined\<close> value.\<close>

definition truthy_opt :: "jsstring option \<Rightarrow> bool" where
  "truthy_opt v \<longleftrightarrow> (case v of None \<Rightarrow> False | Some s \<Rightarrow> truthy s)"

text \<open>
  What a rejected request throws. The HTTP client throws \<open>Error\<close> objects, which carry
  the HTTP status of the response when there was one, and a message; the handlers of the
  pages also have a branch for a thrown value that is not an \<open>Error\<close>.
\<close>

datatype thrown = ErrorObject "nat option" jsstring | NotAnError

section \<open>Numbers of the host language\<close>

text \<open>
  A TypeScript \<open>number\<close> is an IEEE 754 binary64 value. A finite one is taken as the real
  number it denotes; comparisons of such values are exact. An arithmetic operation gives
  the exact result rounded to the nearest binary64 value, ties to the even significand:
  \<open>double_quantum x\<close> is the spacing of the binary64 values around \<open>x\<close> (53 significant
  bits, the smallest exponent being \<open>-1022\<close>), and \<open>to_double\<close> rounds to a multiple of
  it. Overflow to infinity is left out: it does not arise from \<open>100 - x\<close> for a finite
  \<open>x\<close>.
\<close>

definition pow2 :: "int \<Rightarrow> real" where
  "pow2 k = (if 0 \<le> k then 2 ^ nat k else 1 / 2 ^ nat (- k))"

definition round_ties_even :: "real \<Rightarrow> int" where
  "round_ties_even y =
     (if y - of_int \<lfloor>y\<rfloor> < 1 / 2 then \<lfloor>y\<rfloor>
      else if y - of_int \<lfloor>y\<rfloor> > 1 / 2 then \<lfloor>y\<rfloor> + 1
      else if even \<lfloor>y\<rfloor> then \<lfloor>y\<rfloor> else \<lfloor>y\<rfloor> + 1)"

definition double_quantum :: "real \<Rightarrow> real" where
  "double_quantum x = pow2 (max (- 1022) \<lfloor>log 2 \<bar>x\<bar>\<rfloor> - 52)"

definition to_double :: "real \<Rightarrow> real" where
  "to_double x =
     (if x = 0 then 0
      else of_int (round_ties_even (x / double_quantum x)) * double_quantum x)"

text \<open>The operator \<open>-\<close> on numbers.\<close>

definition double_sub :: "real \<Rightarrow> real \<Rightarrow> real" where
  "double_sub a b = to_double (a - b)"

section \<open>Data model (types/index.ts)\<close>

record QAScores =
  readability :: real
  coherence :: real
  redundancy :: real
  neutrality :: real
  human_likeness :: real
  passed :: bool
  failed_metrics :: "jsstring list"

datatype source_kind = page_source | group_source

record Article =
  ident :: jsstring
  title :: jsstring
  summary :: "jsstring option"
  body :: jsstring
  language :: jsstring
  dialect :: "jsstring option"
  source_url :: jsstring
  source_type :: source_kind
  tags :: "jsstring list"
  categories :: "jsstring list"
  qa_scores :: "QAScores option"
  created_at :: "jsstring option"
  updated_at :: "jsstring option"
  status :: jsstring

record ArticleListResponse =
  resp_articles :: "Article list"
  resp_total :: int
  resp_page :: int
  resp_page_size :: int

record ProcessRequest =
  url :: jsstring

record ProcessResponse =
  success :: bool
  article_id :: "jsstring option"
  message :: jsstring
  result_qa_scores :: "QAScores option"

section \<open>Presentation functions (ArticleDetail, ArticleList)\<close>

text \<open>The Arabic label of the language badge, as its seven code units.\<close>

definition arabic_label :: jsstring where
  "arabic_label = [0x627, 0x644, 0x639, 0x631, 0x628, 0x64A, 0x629]"

text \<open>ArticleList: \<open>article.language === 'ar' ? <arabic> : 'English'\<close>.\<close>

definition list_language_badge :: "Article \<Rightarrow> jsstring" where
  "list_language_badge a =
     (if language a = lit ''ar'' then arabic_label else lit ''English'')"

text \<open>
  ArticleDetail: the same ternary, followed by \<open>` (${article.dialect})`\<close> when the dialect
  is truthy.
\<close>

definition detail_language_badge :: "Article \<Rightarrow> jsstring" where
  "detail_language_badge a =
     (if language a = lit ''ar'' then arabic_label else lit ''English'') @
     (case dialect a of
        None \<Rightarrow> []
      | Some d \<Rightarrow> if truthy d then lit '' ('' @ d @ lit '')'' else [])"

text \<open>
  ArticleList, the summary paragraph of a card: rendered only when the summary is truthy;
  \<open>None\<close> is "no paragraph".
\<close>

definition card_summary :: "Article \<Rightarrow> jsstring option" where
  "card_summary a =
     (case summary a of
        None \<Rightarrow> None
      | Some s \<Rightarrow>
          if truthy s
          then Some (if length s > 150 then take 150 s @ lit ''...'' else s)
          else None)"

text \<open>ArticleDetail: \<open>getScoreColor\<close>.\<close>

definition getScoreColor :: "real \<Rightarrow> jsstring" where
  "getScoreColor score =
     (if score \<ge> 75 then lit ''#10b981''
      else if score \<ge> 50 then lit ''#f59e0b''
      else lit ''#ef4444'')"

text \<open>
  One row of the quality card: its label, the number that sets the width of the bar, the
  colour of the bar, and the number printed beside it (the argument of \<open>toFixed(1)\<close>).
\<close>

record score_item =
  scoreLabel :: jsstring
  width :: real
  backgroundColor :: jsstring
  scoreValue :: real

definition score_items :: "QAScores \<Rightarrow> score_item list" where
  "score_items q =
     [\<lparr>scoreLabel = lit ''Readability'', width = readability q,
        backgroundColor = getScoreColor (readability q), scoreValue = readability q\<rparr>,
      \<lparr>scoreLabel = lit ''Coherence'', width = coherence q,
        backgroundColor = getScoreColor (coherence q), scoreValue = coherence q\<rparr>,
      \<lparr>scoreLabel = lit ''Redundancy'', width = redundancy q,
        backgroundColor = getScoreColor (double_sub 100 (redundancy q)),
        scoreValue = redundancy q\<rparr>,
      \<lparr>scoreLabel = lit ''Neutrality'', width = neutrality q,
        backgroundColor = getScoreColor (neutrality q), scoreValue = neutrality q\<rparr>,
      \<lparr>scoreLabel = lit ''Human-likeness'', width = human_likeness q,
        backgroundColor = getScoreColor (human_likeness q),
        scoreValue = human_likeness q\<rparr>]"

text \<open>The quality card is rendered only when the article has scores.\<close>

definition quality_card :: "Article \<Rightarrow> score_item list option" where
  "quality_card a = map_option score_items (qa_scores a)"

section \<open>The HTTP client (services/api.ts)\<close>

text \<open>
  Each function of the client sends one request and returns \<open>response.data\<close>, or lets
  what the HTTP client throws pass to its caller. A request is recorded as a value, so
  that "no network call" is a property of the list of requests a handler has sent.
\<close>

datatype request =
    GET_articles int int "jsstring option" "jsstring option"
  | GET_articles_search jsstring int int
  | GET_article jsstring
  | POST_process ProcessRequest

text \<open>
  The backend and the transport together: what each request is answered with (\<open>Inl\<close>:
  the request is rejected and the value is thrown to the caller).
\<close>

record backend =
  articles_endpoint ::
    "int \<Rightarrow> int \<Rightarrow> jsstring option \<Rightarrow> jsstring option \<Rightarrow> thrown + ArticleListResponse"
  search_endpoint :: "jsstring \<Rightarrow> int \<Rightarrow> int \<Rightarrow> thrown + ArticleListResponse"
  article_endpoint :: "jsstring \<Rightarrow> thrown + Article"
  process_endpoint :: "ProcessRequest \<Rightarrow> thrown + ProcessResponse"

text \<open>\<open>if (language) params.append(...)\<close>: a filter is sent only when it is truthy.\<close>

definition sent_filter :: "jsstring option \<Rightarrow> jsstring option" where
  "sent_filter v = (if truthy_opt v then v else None)"

definition getArticles ::
  "backend \<Rightarrow> int \<Rightarrow> int \<Rightarrow> jsstring option \<Rightarrow> jsstring option
     \<Rightarrow> request \<times> (thrown + ArticleListResponse)" where
  "getArticles b pg pageSize lang category =
     (GET_articles pg pageSize (sent_filter lang) (sent_filter category),
      articles_endpoint b pg pageSize (sent_filter lang) (sent_filter category))"

definition getArticle :: "backend \<Rightarrow> jsstring \<Rightarrow> request \<times> (thrown + Article)" where
  "getArticle b i = (GET_article i, article_endpoint b i)"

definition searchArticles ::
  "backend \<Rightarrow> jsstring \<Rightarrow> int \<Rightarrow> int \<Rightarrow> request \<times> (thrown + ArticleListResponse)" where
  "searchArticles b query pg pageSize =
     (GET_articles_search query pg pageSize, search_endpoint b query pg pageSize)"

definition processUrl ::
  "backend \<Rightarrow> ProcessRequest \<Rightarrow> request \<times> (thrown + ProcessResponse)" where
  "processUrl b req = (POST_process req, process_endpoint b req)"

text \<open>
  \<open>err instanceof Error ? err.message : fallback\<close>, the message both pages keep of a
  thrown value.
\<close>

definition message_or :: "jsstring \<Rightarrow> thrown \<Rightarrow> jsstring" where
  "message_or fallback err =
     (case err of ErrorObject st m \<Rightarrow> m | NotAnError \<Rightarrow> fallback)"

text \<open>
  What running a handler to its end leaves behind: the state of the component, the
  requests sent, and the values written with \<open>console.error\<close>.
\<close>

record 's run =
  state_after :: 's
  sent :: "request list"
  logged :: "thrown list"

section \<open>The home page (list view-model and submission form)\<close>

record home =
  searchQuery :: jsstring
  articles :: "Article list"
  loading :: bool
  page :: int
  total :: int
  processUrl_input :: jsstring
  processing :: bool
  processResult :: "ProcessResponse option"
  processError :: "jsstring option"

definition pageSize :: int where
  "pageSize = 12"

text \<open>The state of the first render; \<open>q\<close> is \<open>searchParams.get('search') || ''\<close>.\<close>

definition home_init :: "jsstring \<Rightarrow> home" where
  "home_init q =
     \<lparr>searchQuery = q, articles = [], loading = True, page = 1, total = 0,
      processUrl_input = [], processing = False, processResult = None, processError = None\<rparr>"

text \<open>
  \<open>fetchArticles\<close> in its three steps: \<open>setLoading(true)\<close>; the call, chosen by the
  truthiness of the search query; and what happens when the call settles (the \<open>try\<close>,
  \<open>catch\<close> and \<open>finally\<close> blocks). The \<open>catch\<close> clause takes every thrown value, so
  nothing is thrown out of \<open>fetchArticles\<close>.
\<close>

definition fetchArticles_begin :: "home \<Rightarrow> home" where
  "fetchArticles_begin s = s\<lparr>loading := True\<rparr>"

definition fetchArticles_call ::
  "backend \<Rightarrow> home \<Rightarrow> request \<times> (thrown + ArticleListResponse)" where
  "fetchArticles_call b s =
     (if truthy (searchQuery s) then searchArticles b (searchQuery s) (page s) pageSize
      else getArticles b (page s) pageSize None None)"

definition fetchArticles_settle ::
  "thrown + ArticleListResponse \<Rightarrow> home \<Rightarrow> home \<times> thrown list" where
  "fetchArticles_settle res s =
     (case res of
        Inr response \<Rightarrow>
          (s\<lparr>articles := resp_articles response, total := resp_total response,
             loading := False\<rparr>, [])
      | Inl err \<Rightarrow> (s\<lparr>loading := False\<rparr>, [err]))"

text \<open>One fetch from start to settlement, with nothing else happening in between.\<close>

definition fetchArticles :: "backend \<Rightarrow> home \<Rightarrow> home run" where
  "fetchArticles b s =
     (let (req, res) = fetchArticles_call b s;
          (s', log) = fetchArticles_settle res (fetchArticles_begin s)
      in \<lparr>state_after = s', sent = [req], logged = log\<rparr>)"

text \<open>
  \<open>handleProcess\<close>. On success the list refresh is started and not awaited: it sets
  \<open>loading\<close> and sends its request, then the \<open>finally\<close> block of the handler runs, and
  the refresh settles afterwards.
\<close>

definition handleProcess :: "backend \<Rightarrow> home \<Rightarrow> home run" where
  "handleProcess b s =
     (if \<not> truthy (trim (processUrl_input s))
      then \<lparr>state_after = s, sent = [], logged = []\<rparr>
      else
        let s1 = s\<lparr>processing := True, processResult := None, processError := None\<rparr>;
            (req, res) = processUrl b \<lparr>url = trim (processUrl_input s)\<rparr>
        in case res of
             Inr result \<Rightarrow>
               let s2 = s1\<lparr>processResult := Some result\<rparr>
               in if success result
                  then
                    let s3 = s2\<lparr>processUrl_input := []\<rparr>;
                        (req', res') = fetchArticles_call b s3;
                        s4 = (fetchArticles_begin s3)\<lparr>processing := False\<rparr>;
                        (s5, log) = fetchArticles_settle res' s4
                    in \<lparr>state_after = s5, sent = [req, req'], logged = log\<rparr>
                  else \<lparr>state_after = s2\<lparr>processing := False\<rparr>, sent = [req],
                         logged = []\<rparr>
           | Inl err \<Rightarrow>
               \<lparr>state_after =
                  s1\<lparr>processError := Some (message_or (lit ''Failed to process URL'') err),
                     processing := False\<rparr>,
                sent = [req], logged = []\<rparr>)"

text \<open>
  The messages rendered inside the form, below the input: the result box (with the success
  or the error style) when \<open>processResult\<close> is set, then the error box when
  \<open>processError\<close> is truthy.
\<close>

datatype form_message = ResultBox bool jsstring | ErrorBox jsstring

definition form_messages :: "home \<Rightarrow> form_message list" where
  "form_messages s =
     (case processResult s of
        None \<Rightarrow> []
      | Some r \<Rightarrow> [ResultBox (success r) (message r)]) @
     (case processError s of
        None \<Rightarrow> []
      | Some e \<Rightarrow> if truthy e then [ErrorBox e] else [])"

text \<open>What \<open>ArticleList\<close> shows for the state.\<close>

datatype list_view = Skeleton | EmptyList | Cards "Article list"

definition list_view_of :: "home \<Rightarrow> list_view" where
  "list_view_of s =
     (if loading s then Skeleton
      else if length (articles s) = 0 then EmptyList
      else Cards (articles s))"

text \<open>\<open>Math.ceil(total / pageSize)\<close>.\<close>

definition totalPages :: "home \<Rightarrow> int" where
  "totalPages s = \<lceil>real_of_int (total s) / real_of_int pageSize\<rceil>"

text \<open>
  The pagination block is rendered only when \<open>totalPages > 1\<close>; each button has its
  \<open>disabled\<close> condition. A button that is not rendered or is disabled cannot be clicked.
\<close>

definition pagination_shown :: "home \<Rightarrow> bool" where
  "pagination_shown s \<longleftrightarrow> totalPages s > 1"

definition clickPrevious :: "home \<Rightarrow> home" where
  "clickPrevious s =
     (if pagination_shown s \<and> \<not> (page s = 1)
      then s\<lparr>page := max 1 (page s - 1)\<rparr>
      else s)"

definition clickNext :: "home \<Rightarrow> home" where
  "clickNext s =
     (if pagination_shown s \<and> \<not> (page s = totalPages s)
      then s\<lparr>page := min (totalPages s) (page s + 1)\<rparr>
      else s)"

text \<open>
  The page with its requests in flight. A change of \<open>page\<close> gives \<open>fetchArticles\<close> a new
  identity, and the effect hook then calls it: the fetch begins and its call joins the
  calls in flight. A response may arrive for any call in flight, in any order; on arrival
  the continuation of that call runs on the current state.
\<close>

record home_system =
  view :: home
  inflight :: "(request \<times> (thrown + ArticleListResponse)) list"

datatype event = Previous | Next | Arrive nat

definition start_fetch :: "backend \<Rightarrow> home_system \<Rightarrow> home_system" where
  "start_fetch b sys =
     \<lparr>view = fetchArticles_begin (view sys),
      inflight = inflight sys @ [fetchArticles_call b (view sys)]\<rparr>"

definition mount :: "backend \<Rightarrow> jsstring \<Rightarrow> home_system" where
  "mount b q = start_fetch b \<lparr>view = home_init q, inflight = []\<rparr>"

definition navigate :: "backend \<Rightarrow> (home \<Rightarrow> home) \<Rightarrow> home_system \<Rightarrow> home_system" where
  "navigate b click sys =
     (if page (click (view sys)) = page (view sys) then sys
      else start_fetch b (sys\<lparr>view := click (view sys)\<rparr>))"

definition arrive :: "nat \<Rightarrow> home_system \<Rightarrow> home_system" where
  "arrive i sys =
     (if i < length (inflight sys)
      then \<lparr>view = fst (fetchArticles_settle (snd (inflight sys ! i)) (view sys)),
            inflight = take i (inflight sys) @ drop (Suc i) (inflight sys)\<rparr>
      else sys)"

fun step :: "backend \<Rightarrow> home_system \<Rightarrow> event \<Rightarrow> home_system" where
  "step b sys Previous = navigate b clickPrevious sys"
| "step b sys Next = navigate b clickNext sys"
| "step b sys (Arrive i) = arrive i sys"

definition run_events :: "backend \<Rightarrow> home_system \<Rightarrow> event list \<Rightarrow> home_system" where
  "run_events b sys evs = foldl (step b) sys evs"

section \<open>The article page (detail view-model)\<close>

record article_page =
  article :: "Article option"
  page_loading :: bool
  error :: "jsstring option"

definition article_page_init :: article_page where
  "article_page_init = \<lparr>article = None, page_loading = True, error = None\<rparr>"

text \<open>
  \<open>fetchArticle\<close>, run by the effect hook for the \<open>id\<close> of the route (\<open>None\<close>: the
  route has no \<open>id\<close>). \<open>!id\<close> holds for a missing and for an empty \<open>id\<close>.
\<close>

definition fetchArticle :: "backend \<Rightarrow> jsstring option \<Rightarrow> article_page \<Rightarrow> article_page run" where
  "fetchArticle b route_id s =
     (case route_id of
        None \<Rightarrow>
          \<lparr>state_after = s\<lparr>error := Some (lit ''Article ID not provided''),
                            page_loading := False\<rparr>,
           sent = [], logged = []\<rparr>
      | Some i \<Rightarrow>
          if \<not> truthy i
          then \<lparr>state_after = s\<lparr>error := Some (lit ''Article ID not provided''),
                                 page_loading := False\<rparr>,
                sent = [], logged = []\<rparr>
          else
            (let (req, res) = getArticle b i
             in (case res of
                   Inr data \<Rightarrow>
                     \<lparr>state_after = s\<lparr>article := Some data, page_loading := False\<rparr>,
                      sent = [req], logged = []\<rparr>
                 | Inl err \<Rightarrow>
                     \<lparr>state_after =
                        s\<lparr>error := Some (message_or (lit ''Failed to load article'') err),
                          page_loading := False\<rparr>,
                      sent = [req], logged = []\<rparr>)))"

text \<open>
  What the page renders: the spinner, the error view (its heading and its paragraph), or
  the article.
\<close>

datatype page_view = LoadingView | ErrorView jsstring jsstring | DetailView Article

definition render_page :: "article_page \<Rightarrow> page_view" where
  "render_page s =
     (if page_loading s then LoadingView
      else if truthy_opt (error s) \<or> article s = None
      then ErrorView (lit ''Article Not Found'')
             (case error s of
                None \<Rightarrow> lit ''The requested article could not be found.''
              | Some e \<Rightarrow>
                  if truthy e then e else lit ''The requested article could not be found.'')
      else (case article s of
              Some a \<Rightarrow> DetailView a
            | None \<Rightarrow> ErrorView (lit ''Article Not Found'')
                        (lit ''The requested article could not be found.'')))"

section \<open>Example data\<close>

text \<open>An article, a backend and some states, for the concrete instances below.\<close>

definition sample_article :: Article where
  "sample_article =
     \<lparr>ident = lit ''a1'', title = lit ''T'', summary = None, body = lit ''B'',
      language = lit ''en'', dialect = None, source_url = lit ''https://facebook.com/p'',
      source_type = page_source, tags = [], categories = [], qa_scores = None,
      created_at = None, updated_at = None, status = lit ''published''\<rparr>"

definition article_of_page :: "int \<Rightarrow> Article" where
  "article_of_page pg = sample_article\<lparr>ident := [of_int pg]\<rparr>"

text \<open>The error of the HTTP client for a response with a three-digit status.\<close>

definition status_error :: "nat \<Rightarrow> thrown" where
  "status_error n =
     ErrorObject (Some n)
       (lit ''Request failed with status code '' @ [of_nat (n div 100) + 0x30,
          of_nat (n div 10 mod 10) + 0x30, of_nat (n mod 10) + 0x30])"

definition network_error :: thrown where
  "network_error = ErrorObject None (lit ''Network Error'')"

text \<open>
  A backend with thirty articles, one shown per page request, no search results, no
  article under any id, and a pipeline that succeeds.
\<close>

definition sample_backend :: backend where
  "sample_backend =
     \<lparr>articles_endpoint = (\<lambda>pg ps l c.
        Inr \<lparr>resp_articles = [article_of_page pg], resp_total = 30, resp_page = pg,
             resp_page_size = ps\<rparr>),
      search_endpoint = (\<lambda>q pg ps.
        Inr \<lparr>resp_articles = [], resp_total = 0, resp_page = pg, resp_page_size = ps\<rparr>),
      article_endpoint = (\<lambda>i. Inl (status_error 404)),
      process_endpoint = (\<lambda>r.
        Inr \<lparr>success = True, article_id = Some (lit ''abc123''), message = lit ''done'',
             result_qa_scores = None\<rparr>)\<rparr>"

definition backend_500 :: backend where
  "backend_500 = sample_backend\<lparr>article_endpoint := (\<lambda>i. Inl (status_error 500))\<rparr>"

definition backend_down :: backend where
  "backend_down =
     \<lparr>articles_endpoint = (\<lambda>pg ps l c. Inl network_error),
      search_endpoint = (\<lambda>q pg ps. Inl network_error),
      article_endpoint = (\<lambda>i. Inl network_error),
      process_endpoint = (\<lambda>r. Inl network_error)\<rparr>"

text \<open>
  The first page loads, "Next" is clicked twice, and the response for page 3 arrives
  before the response for page 2.
\<close>

definition race_trace :: "event list" where
  "race_trace = [Arrive 0, Next, Next, Arrive 1, Arrive 0]"

text \<open>The page after the first load and two clicks on "Next", with two calls in flight.\<close>

definition two_in_flight :: home_system where
  "two_in_flight = run_events sample_backend (mount sample_backend []) [Arrive 0, Next, Next]"

text \<open>The form with three spaces typed into it.\<close>

definition blank_form :: home where
  "blank_form = (home_init [])\<lparr>processUrl_input := lit ''   ''\<rparr>"

text \<open>A loaded first page.\<close>

definition loaded_home :: home where
  "loaded_home =
     (home_init [])\<lparr>articles := [article_of_page 1], total := 30, loading := False\<rparr>"


text \<open>The loaded first page with a URL typed into the form, spaces around it.\<close>

definition typed_form :: home where
  "typed_form = loaded_home\<lparr>processUrl_input := lit '' https://facebook.com/p ''\<rparr>"

text \<open>
  A backend whose count of articles has dropped to thirteen by the time page 3 is asked
  for, and the events that lead the page there.
\<close>

definition shrinking_backend :: backend where
  "shrinking_backend =
     sample_backend\<lparr>articles_endpoint := (\<lambda>pg ps l c.
        Inr \<lparr>resp_articles = [article_of_page pg],
             resp_total = (if pg = 3 then 13 else 30), resp_page = pg,
             resp_page_size = ps\<rparr>)\<rparr>"

definition shrinking_trace :: "event list" where
  "shrinking_trace = [Arrive 0, Next, Arrive 0, Next, Arrive 0]"

text \<open>Scores with a given redundancy.\<close>

definition scores_with_redundancy :: "real \<Rightarrow> QAScores" where
  "scores_with_redundancy r =
     \<lparr>readability = 80, coherence = 60, redundancy = r, neutrality = 40,
      human_likeness = 75, passed = False, failed_metrics = [lit ''neutrality'']\<rparr>"

text \<open>A backend whose pipeline succeeds and whose list requests are rejected.\<close>

definition backend_list_down :: backend where
  "backend_list_down =
     sample_backend\<lparr>articles_endpoint := (\<lambda>pg ps l c. Inl network_error)\<rparr>"



text \<open>The binary64 value next above 25 (printed as 25.000000000000004).\<close>

definition just_above_25 :: real where
  "just_above_25 = 25 + 1 / 2 ^ 48"


section \<open>Auxiliary facts\<close>

lemma totalPages_div: "totalPages s = - ((- total s) div 12)"
  unfolding totalPages_def pageSize_def
  using ceiling_divide_eq_div [of "total s" 12] by simp

lemma status_error_404:
  "status_error 404 = ErrorObject (Some 404) (lit ''Request failed with status code 404'')"
  by (simp add: status_error_def lit_def)

lemma status_error_500:
  "status_error 500 = ErrorObject (Some 500) (lit ''Request failed with status code 500'')"
  by (simp add: status_error_def lit_def)

lemma blank_form_trim: "\<not> truthy (trim (processUrl_input blank_form))"
  by (simp add: blank_form_def truthy_def trim_def lit_def isWhiteSpace_def)

lemma handleProcess_blank_form:
  "handleProcess b blank_form = \<lparr>state_after = blank_form, sent = [], logged = []\<rparr>"
  by (simp add: handleProcess_def blank_form_trim)

lemma totalPages_frame [simp]: "totalPages (s\<lparr>page := p\<rparr>) = totalPages s"
  by (simp add: totalPages_def)

lemma clickPrevious_lower: "1 \<le> page s \<Longrightarrow> 1 \<le> page (clickPrevious s)"
  by (simp add: clickPrevious_def)

lemma clickNext_lower: "1 \<le> page s \<Longrightarrow> 1 \<le> page (clickNext s)"
  by (simp add: clickNext_def pagination_shown_def)

lemma step_lower: "1 \<le> page (view sys) \<Longrightarrow> 1 \<le> page (view (step b sys ev))"
proof (cases ev)
  case Previous
  then show "1 \<le> page (view sys) \<Longrightarrow> ?thesis"
    using clickPrevious_lower [of "view sys"]
    by (simp add: navigate_def start_fetch_def fetchArticles_begin_def)
next
  case Next
  then show "1 \<le> page (view sys) \<Longrightarrow> ?thesis"
    using clickNext_lower [of "view sys"]
    by (simp add: navigate_def start_fetch_def fetchArticles_begin_def)
next
  case (Arrive i)
  then show "1 \<le> page (view sys) \<Longrightarrow> ?thesis"
    by (simp add: arrive_def fetchArticles_settle_def split: sum.splits)
qed

lemma run_events_lower:
  "1 \<le> page (view sys) \<Longrightarrow> 1 \<le> page (view (run_events b sys evs))"
  unfolding run_events_def
  by (induction evs arbitrary: sys) (simp_all add: step_lower)

lemma mount_page: "page (view (mount b q)) = 1"
  by (simp add: mount_def start_fetch_def fetchArticles_begin_def home_init_def)

lemma loaded_home_pages: "totalPages loaded_home = 3" "page loaded_home = 1"
  by (simp_all add: totalPages_div loaded_home_def home_init_def)

lemma shrinking_run:
  "page (view (run_events shrinking_backend (mount shrinking_backend []) shrinking_trace)) = 3 \<and>
   total (view (run_events shrinking_backend (mount shrinking_backend []) shrinking_trace)) = 13 \<and>
   page (view (run_events shrinking_backend (mount shrinking_backend [])
      (shrinking_trace @ [Next]))) = 2"
  by (simp add: shrinking_trace_def run_events_def mount_def start_fetch_def navigate_def
      arrive_def clickNext_def pagination_shown_def totalPages_div home_init_def
      fetchArticles_begin_def fetchArticles_call_def fetchArticles_settle_def
      getArticles_def sent_filter_def truthy_opt_def truthy_def pageSize_def
      shrinking_backend_def sample_backend_def)

lemma fetchArticles_call_frame:
  "fetchArticles_call b (s\<lparr>processing := x1\<rparr>) = fetchArticles_call b s"
  "fetchArticles_call b (s\<lparr>processResult := x2\<rparr>) = fetchArticles_call b s"
  "fetchArticles_call b (s\<lparr>processError := x3\<rparr>) = fetchArticles_call b s"
  "fetchArticles_call b (s\<lparr>processUrl_input := x4\<rparr>) = fetchArticles_call b s"
  by (simp_all add: fetchArticles_call_def)

lemma typed_form_trim:
  "trim (processUrl_input typed_form) = lit ''https://facebook.com/p''"
  by (simp add: typed_form_def loaded_home_def home_init_def trim_def lit_def
      isWhiteSpace_def)

lemma typed_form_truthy: "truthy (trim (processUrl_input typed_form))"
  by (simp add: typed_form_trim) (simp add: truthy_def lit_def)

lemma two_in_flight_inflight:
  "inflight two_in_flight =
     [(GET_articles 2 12 None None,
       Inr \<lparr>resp_articles = [article_of_page 2], resp_total = 30, resp_page = 2,
            resp_page_size = 12\<rparr>),
      (GET_articles 3 12 None None,
       Inr \<lparr>resp_articles = [article_of_page 3], resp_total = 30, resp_page = 3,
            resp_page_size = 12\<rparr>)]"
  by (simp add: two_in_flight_def run_events_def mount_def start_fetch_def navigate_def
      arrive_def clickNext_def pagination_shown_def totalPages_div home_init_def
      fetchArticles_begin_def fetchArticles_call_def fetchArticles_settle_def
      getArticles_def sent_filter_def truthy_opt_def truthy_def pageSize_def
      sample_backend_def)

lemma pow2_powr: "pow2 k = 2 powr (of_int k)"
  by (simp add: pow2_def powr_real_of_int inverse_eq_divide)

lemma double_quantum_eq:
  assumes "pow2 e \<le> \<bar>x\<bar>" and "\<bar>x\<bar> < pow2 (e + 1)" and "- 1022 \<le> e"
  shows "double_quantum x = pow2 (e - 52)"
proof -
  have pos: "0 < \<bar>x\<bar>"
    using assms(1) by (simp add: pow2_powr) (smt (verit) powr_gt_zero)
  have "\<lfloor>log 2 \<bar>x\<bar>\<rfloor> = e"
    using assms(1,2) floor_log_eq_powr_iff [of "\<bar>x\<bar>" 2 e] pos
    by (simp add: pow2_powr)
  then show ?thesis using assms(3) by (simp add: double_quantum_def)
qed

lemma double_quantum_64: "64 \<le> \<bar>x\<bar> \<Longrightarrow> \<bar>x\<bar> < 128 \<Longrightarrow> double_quantum x = 1 / 2 ^ 46"
  using double_quantum_eq [of 6 x] by (simp add: pow2_def)

lemma double_quantum_8: "8 \<le> \<bar>x\<bar> \<Longrightarrow> \<bar>x\<bar> < 16 \<Longrightarrow> double_quantum x = 1 / 2 ^ 49"
  using double_quantum_eq [of 3 x] by (simp add: pow2_def)

lemma double_sub_100_10: "double_sub 100 10 = 90"
  by (simp add: double_sub_def to_double_def double_quantum_64 round_ties_even_def)

lemma double_sub_100_90: "double_sub 100 90 = 10"
  by (simp add: double_sub_def to_double_def double_quantum_8 round_ties_even_def)

lemma double_sub_100_above_25:
  "double_sub 100 just_above_25 = 75" "100 - just_above_25 < 75"
  by (simp_all add: just_above_25_def double_sub_def to_double_def double_quantum_64
      round_ties_even_def)

lemma fetchArticles_Inl:
  "fetchArticles_call b s = (req, Inl e) \<Longrightarrow>
     fetchArticles b s = \<lparr>state_after = s\<lparr>loading := False\<rparr>, sent = [req], logged = [e]\<rparr>"
  by (simp add: fetchArticles_def fetchArticles_settle_def fetchArticles_begin_def)

lemma fetchArticles_Inr:
  "fetchArticles_call b s = (req, Inr r) \<Longrightarrow>
     fetchArticles b s =
       \<lparr>state_after = s\<lparr>articles := resp_articles r, total := resp_total r,
                         loading := False\<rparr>,
        sent = [req], logged = []\<rparr>"
  by (simp add: fetchArticles_def fetchArticles_settle_def fetchArticles_begin_def)

lemma handleProcess_success:
  assumes "truthy (trim (processUrl_input s))"
    and "process_endpoint b \<lparr>url = trim (processUrl_input s)\<rparr> = Inr r" and "success r"
  shows "state_after (handleProcess b s) =
     (state_after (fetchArticles b s))
       \<lparr>processUrl_input := [], processing := False, processResult := Some r,
        processError := None\<rparr>"
proof -
  obtain req res where c: "fetchArticles_call b s = (req, res)"
    by (cases "fetchArticles_call b s")
  show ?thesis
    using assms c
    by (cases res)
       (simp_all add: handleProcess_def processUrl_def fetchArticles_def
          fetchArticles_call_frame fetchArticles_begin_def fetchArticles_settle_def)
qed

lemma loaded_home_calls:
  "fetchArticles_call backend_list_down loaded_home =
     (GET_articles 1 12 None None, Inl network_error)"
  "fetchArticles_call sample_backend loaded_home =
     (GET_articles 1 12 None None,
      Inr \<lparr>resp_articles = [article_of_page 1], resp_total = 30, resp_page = 1,
           resp_page_size = 12\<rparr>)"
  by (simp_all add: fetchArticles_call_def loaded_home_def home_init_def truthy_def
      getArticles_def sent_filter_def truthy_opt_def pageSize_def backend_list_down_def
      sample_backend_def)

lemma loaded_home_refetched:
  "loaded_home\<lparr>articles := [article_of_page 1], total := 30, loading := False\<rparr> =
   loaded_home\<lparr>loading := False\<rparr>"
  by (simp add: loaded_home_def home_init_def)

lemma typed_form_refresh:
  "state_after (fetchArticles backend_list_down typed_form) =
   state_after (fetchArticles sample_backend typed_form)"
proof -
  have c: "fetchArticles_call b typed_form = fetchArticles_call b loaded_home" for b
    by (simp add: typed_form_def fetchArticles_call_frame)
  have e: "typed_form\<lparr>articles := [article_of_page 1], total := 30, loading := False\<rparr> =
      typed_form\<lparr>loading := False\<rparr>"
    by (simp add: typed_form_def loaded_home_def home_init_def)
  show ?thesis
    using fetchArticles_Inl [of backend_list_down typed_form]
      fetchArticles_Inr [of sample_backend typed_form]
    by (simp add: c loaded_home_calls e)
qed

section \<open>Submission with a blank URL\<close>

text \<open>
  C1, as the code has it: when the text of the URL field is empty after \<open>trim\<close>, the
  submit handler returns at once: it sends no request, writes nothing to the console and
  leaves every field of the state as it was, so no error is recorded or shown.
\<close>

theorem handleProcess_blank_url:
  "\<not> truthy (trim (processUrl_input s)) \<Longrightarrow>
     handleProcess b s = \<lparr>state_after = s, sent = [], logged = []\<rparr>"
  by (simp add: handleProcess_def)

theorem handleProcess_blank_url_witness:
  "\<not> truthy (trim (processUrl_input blank_form)) \<and>
   handleProcess sample_backend blank_form =
     \<lparr>state_after = blank_form, sent = [], logged = []\<rparr>"
  using blank_form_trim handleProcess_blank_url [OF blank_form_trim, of sample_backend]
  by simp

text \<open>
  C1 as stated asks for an error to be yielded. With three spaces in the field the
  handler records no error (\<open>processError\<close> stays unset, nothing is logged, the form
  shows no message); and the client function \<open>processUrl\<close> itself has no check: given
  the empty URL it sends the POST.
\<close>

theorem blank_url_no_validation_error:
  "processError (state_after (handleProcess sample_backend blank_form)) = None \<and>
   logged (handleProcess sample_backend blank_form) = [] \<and>
   form_messages (state_after (handleProcess sample_backend blank_form)) = [] \<and>
   fst (processUrl sample_backend \<lparr>url = []\<rparr>) = POST_process \<lparr>url = []\<rparr>"
  unfolding handleProcess_blank_form
  by (simp add: blank_form_def home_init_def form_messages_def processUrl_def)

section \<open>Responses that arrive out of order\<close>

text \<open>
  C2, as the code has it: a response that arrives is written into the state whatever has
  been requested since; after the arrival of a successful response, \<open>articles\<close> and
  \<open>total\<close> are those of that response, \<open>loading\<close> is false and \<open>page\<close> is untouched.
  So the state reflects the response that arrived last: of two calls in flight, both
  answered with success, the one whose response arrives second gives the final \<open>articles\<close>
  and \<open>total\<close>, in either order of arrival.
\<close>

theorem arrival_overwrites:
  assumes "i < length (inflight sys)" and "snd (inflight sys ! i) = Inr r"
  shows
    "articles (view (step b sys (Arrive i))) = resp_articles r \<and>
     total (view (step b sys (Arrive i))) = resp_total r \<and>
     loading (view (step b sys (Arrive i))) = False \<and>
     page (view (step b sys (Arrive i))) = page (view sys) \<and>
     (inflight sys = [(q1, Inr r1), (q2, Inr r2)] \<longrightarrow>
        articles (view (run_events b sys [Arrive 1, Arrive 0])) = resp_articles r1 \<and>
        total (view (run_events b sys [Arrive 1, Arrive 0])) = resp_total r1 \<and>
        articles (view (run_events b sys [Arrive 0, Arrive 0])) = resp_articles r2 \<and>
        total (view (run_events b sys [Arrive 0, Arrive 0])) = resp_total r2)"
proof -
  have one: "articles (view (step b sys (Arrive i))) = resp_articles r \<and>
     total (view (step b sys (Arrive i))) = resp_total r \<and>
     loading (view (step b sys (Arrive i))) = False \<and>
     page (view (step b sys (Arrive i))) = page (view sys)"
    using assms by (simp add: arrive_def fetchArticles_settle_def)
  have two: "articles (view (run_events b sys [Arrive 1, Arrive 0])) = resp_articles r1 \<and>
        total (view (run_events b sys [Arrive 1, Arrive 0])) = resp_total r1 \<and>
        articles (view (run_events b sys [Arrive 0, Arrive 0])) = resp_articles r2 \<and>
        total (view (run_events b sys [Arrive 0, Arrive 0])) = resp_total r2"
    if "inflight sys = [(q1, Inr r1), (q2, Inr r2)]"
    using that by (simp add: run_events_def arrive_def fetchArticles_settle_def)
  show ?thesis using one two by blast
qed

theorem arrival_overwrites_witness:
  "0 < length (inflight (mount sample_backend [])) \<and>
   snd (inflight (mount sample_backend []) ! 0) =
     Inr \<lparr>resp_articles = [article_of_page 1], resp_total = 30, resp_page = 1,
          resp_page_size = 12\<rparr> \<and>
   articles (view (step sample_backend (mount sample_backend []) (Arrive 0))) =
     [article_of_page 1] \<and>
   total (view (step sample_backend (mount sample_backend []) (Arrive 0))) = 30 \<and>
   inflight two_in_flight =
     [(GET_articles 2 12 None None,
       Inr \<lparr>resp_articles = [article_of_page 2], resp_total = 30, resp_page = 2,
            resp_page_size = 12\<rparr>),
      (GET_articles 3 12 None None,
       Inr \<lparr>resp_articles = [article_of_page 3], resp_total = 30, resp_page = 3,
            resp_page_size = 12\<rparr>)] \<and>
   articles (view (run_events sample_backend two_in_flight [Arrive 1, Arrive 0])) =
     [article_of_page 2] \<and>
   articles (view (run_events sample_backend two_in_flight [Arrive 0, Arrive 0])) =
     [article_of_page 3]"
proof -
  have h1: "0 < length (inflight (mount sample_backend []))"
    by (simp add: mount_def start_fetch_def)
  have h2: "snd (inflight (mount sample_backend []) ! 0) =
     Inr \<lparr>resp_articles = [article_of_page 1], resp_total = 30, resp_page = 1,
          resp_page_size = 12\<rparr>"
    by (simp add: mount_def start_fetch_def fetchArticles_call_def home_init_def truthy_def
        getArticles_def sent_filter_def truthy_opt_def pageSize_def sample_backend_def)
  have k1: "0 < length (inflight two_in_flight)"
    by (simp add: two_in_flight_inflight)
  have k2: "snd (inflight two_in_flight ! 0) =
     Inr \<lparr>resp_articles = [article_of_page 2], resp_total = 30, resp_page = 2,
          resp_page_size = 12\<rparr>"
    by (simp add: two_in_flight_inflight)
  show ?thesis
    using h1 h2 arrival_overwrites [OF h1 h2, of sample_backend]
      two_in_flight_inflight
      arrival_overwrites [OF k1 k2, of sample_backend
        "GET_articles 2 12 None None"
        "\<lparr>resp_articles = [article_of_page 2], resp_total = 30, resp_page = 2,
          resp_page_size = 12\<rparr>"
        "GET_articles 3 12 None None"
        "\<lparr>resp_articles = [article_of_page 3], resp_total = 30, resp_page = 3,
          resp_page_size = 12\<rparr>"]
    by simp
qed

text \<open>
  C2 as stated fails on \<open>race_trace\<close>: page 2 is requested, then page 3; the response
  for page 3 arrives first and the response for page 2 after it. At the end nothing is in
  flight, the page is 3, and the articles are those of page 2, which are not the ones the
  backend gives for page 3.
\<close>

theorem stale_response_overwrites:
  "map fst (inflight (run_events sample_backend (mount sample_backend [])
       [Arrive 0, Next, Next])) =
     [GET_articles 2 12 None None, GET_articles 3 12 None None] \<and>
   page (view (run_events sample_backend (mount sample_backend []) race_trace)) = 3 \<and>
   articles (view (run_events sample_backend (mount sample_backend []) race_trace)) =
     [article_of_page 2] \<and>
   inflight (run_events sample_backend (mount sample_backend []) race_trace) = [] \<and>
   articles_endpoint sample_backend 3 12 None None =
     Inr \<lparr>resp_articles = [article_of_page 3], resp_total = 30, resp_page = 3,
          resp_page_size = 12\<rparr> \<and>
   article_of_page 2 \<noteq> article_of_page 3"
  by (simp add: race_trace_def run_events_def mount_def start_fetch_def navigate_def
      arrive_def clickNext_def pagination_shown_def totalPages_div home_init_def
      fetchArticles_begin_def fetchArticles_call_def fetchArticles_settle_def
      getArticles_def sent_filter_def truthy_opt_def truthy_def pageSize_def
      sample_backend_def article_of_page_def sample_article_def)

section \<open>Failures of the lookup by id\<close>

text \<open>
  C3, as the code has it: \<open>getArticle\<close> sends the GET and passes on whatever the HTTP
  client throws, unchanged and unclassified, for every failure alike. The article page
  keeps the message of the thrown value (or a fixed text), stops loading, and from its
  first state renders the error view under the heading "Article Not Found".
\<close>

theorem getArticle_failure_unclassified:
  "truthy i \<Longrightarrow> article_endpoint b i = Inl e \<Longrightarrow>
     getArticle b i = (GET_article i, Inl e) \<and>
     fetchArticle b (Some i) s =
       \<lparr>state_after = s\<lparr>error := Some (message_or (lit ''Failed to load article'') e),
                         page_loading := False\<rparr>,
        sent = [GET_article i], logged = []\<rparr> \<and>
     (\<exists>p. render_page (state_after (fetchArticle b (Some i) article_page_init)) =
            ErrorView (lit ''Article Not Found'') p)"
  by (simp add: getArticle_def fetchArticle_def render_page_def article_page_init_def)

theorem getArticle_failure_unclassified_witness:
  "truthy (lit ''a1'') \<and>
   article_endpoint sample_backend (lit ''a1'') = Inl (status_error 404) \<and>
   getArticle sample_backend (lit ''a1'') =
     (GET_article (lit ''a1''), Inl (status_error 404)) \<and>
   state_after (fetchArticle sample_backend (Some (lit ''a1'')) article_page_init) =
     \<lparr>article = None, page_loading = False,
      error = Some (lit ''Request failed with status code 404'')\<rparr>"
proof -
  have h1: "truthy (lit ''a1'')" by (simp add: truthy_def lit_def)
  have h2: "article_endpoint sample_backend (lit ''a1'') = Inl (status_error 404)"
    by (simp add: sample_backend_def)
  have m: "message_or (lit ''Failed to load article'') (status_error 404) =
      lit ''Request failed with status code 404''"
    by (simp add: message_or_def status_error_404)
  show ?thesis
    using h1 h2 getArticle_failure_unclassified [OF h1 h2, of article_page_init] m
    by (simp add: article_page_init_def)
qed

text \<open>
  C3 as stated ties the not-found failure to a 404 alone. A backend that answers the
  lookup with status 500 makes \<open>getArticle\<close> throw the same kind of value, and the page
  shows it under "Article Not Found" as well.
\<close>

theorem server_error_shown_as_not_found:
  "snd (getArticle backend_500 (lit ''a1'')) =
     Inl (ErrorObject (Some 500) (lit ''Request failed with status code 500'')) \<and>
   render_page (state_after (fetchArticle backend_500 (Some (lit ''a1'')) article_page_init)) =
     ErrorView (lit ''Article Not Found'') (lit ''Request failed with status code 500'')"
  by (simp add: getArticle_def backend_500_def sample_backend_def status_error_def
      fetchArticle_def article_page_init_def render_page_def message_or_def truthy_def
      truthy_opt_def lit_def)

section \<open>A list fetch that fails\<close>

text \<open>
  C4, as the code has it: when the call of a fetch is rejected, the fetch ends with
  \<open>articles\<close> and \<open>total\<close> as they were before it, with \<open>loading\<close> false and no other
  field changed, and nothing is thrown out of the fetch, which ends in a state. The
  failure is written to the console with \<open>console.error\<close> and goes nowhere else: no field
  of the state records it, so the state a failed fetch leaves is the state left by a
  fetch that succeeds with the articles and the total already held. The same holds for
  the settlement alone, in whatever state \<open>s'\<close> the rejection finds the page.
\<close>

theorem fetch_failure_only_logged:
  assumes "snd (fetchArticles_call b s) = Inl e"
  shows
    "articles (state_after (fetchArticles b s)) = articles s \<and>
     total (state_after (fetchArticles b s)) = total s \<and>
     loading (state_after (fetchArticles b s)) = False \<and>
     state_after (fetchArticles b s) = s\<lparr>loading := False\<rparr> \<and>
     logged (fetchArticles b s) = [e] \<and>
     fetchArticles_settle (Inl e) s' = (s'\<lparr>loading := False\<rparr>, [e]) \<and>
     (snd (fetchArticles_call b' s) = Inr r \<and> resp_articles r = articles s \<and>
      resp_total r = total s \<longrightarrow>
        state_after (fetchArticles b' s) = state_after (fetchArticles b s) \<and>
        logged (fetchArticles b' s) = [])"
proof -
  obtain req where c: "fetchArticles_call b s = (req, Inl e)"
    using assms by (cases "fetchArticles_call b s") simp
  note fail = fetchArticles_Inl [OF c]
  have same: "state_after (fetchArticles b' s) = state_after (fetchArticles b s) \<and>
        logged (fetchArticles b' s) = []"
    if h: "snd (fetchArticles_call b' s) = Inr r \<and> resp_articles r = articles s \<and>
      resp_total r = total s"
  proof -
    obtain req' where c': "fetchArticles_call b' s = (req', Inr r)"
      using h by (cases "fetchArticles_call b' s") simp
    show ?thesis
      using h by (simp add: fail fetchArticles_Inr [OF c'])
  qed
  show ?thesis
    using same by (simp add: fail fetchArticles_settle_def)
qed

theorem fetch_failure_only_logged_witness:
  "snd (fetchArticles_call backend_down loaded_home) = Inl network_error \<and>
   articles (state_after (fetchArticles backend_down loaded_home)) = [article_of_page 1] \<and>
   total (state_after (fetchArticles backend_down loaded_home)) = 30 \<and>
   loading (state_after (fetchArticles backend_down loaded_home)) = False \<and>
   logged (fetchArticles backend_down loaded_home) = [network_error] \<and>
   list_view_of (state_after (fetchArticles backend_down loaded_home)) =
     Cards [article_of_page 1] \<and>
   snd (fetchArticles_call sample_backend loaded_home) =
     Inr \<lparr>resp_articles = [article_of_page 1], resp_total = 30, resp_page = 1,
          resp_page_size = 12\<rparr> \<and>
   state_after (fetchArticles sample_backend loaded_home) =
     state_after (fetchArticles backend_down loaded_home)"
proof -
  have h: "snd (fetchArticles_call backend_down loaded_home) = Inl network_error"
    by (simp add: fetchArticles_call_def loaded_home_def home_init_def truthy_def
        getArticles_def backend_down_def)
  have k: "snd (fetchArticles_call sample_backend loaded_home) =
     Inr \<lparr>resp_articles = [article_of_page 1], resp_total = 30, resp_page = 1,
          resp_page_size = 12\<rparr>"
    by (simp add: fetchArticles_call_def loaded_home_def home_init_def truthy_def
        getArticles_def sent_filter_def truthy_opt_def pageSize_def sample_backend_def)
  note A = fetch_failure_only_logged [OF h, of loaded_home sample_backend
      "\<lparr>resp_articles = [article_of_page 1], resp_total = 30, resp_page = 1,
        resp_page_size = 12\<rparr>"]
  have d: "articles loaded_home = [article_of_page 1]" "total loaded_home = 30"
    by (simp_all add: loaded_home_def home_init_def)
  have same: "state_after (fetchArticles sample_backend loaded_home) =
     state_after (fetchArticles backend_down loaded_home)"
    using A k d by simp
  have st: "state_after (fetchArticles backend_down loaded_home) =
      loaded_home\<lparr>loading := False\<rparr>"
    using A by simp
  have lg: "logged (fetchArticles backend_down loaded_home) = [network_error]"
    using A by simp
  show ?thesis
    using h k same lg
    by (simp add: st) (simp add: loaded_home_def home_init_def list_view_of_def)
qed

text \<open>
  C4 as stated has the failure reported to the caller. With the list requests rejected, a
  fetch from the loaded first page logs the thrown value and leaves the very state a
  successful fetch leaves; and the submit handler, which starts the refresh, ends in the
  same state and shows the same success message whether the refresh failed or not.
\<close>

theorem fetch_failure_not_surfaced:
  "snd (fetchArticles_call backend_list_down loaded_home) = Inl network_error \<and>
   logged (fetchArticles backend_list_down loaded_home) = [network_error] \<and>
   state_after (fetchArticles backend_list_down loaded_home) =
     state_after (fetchArticles sample_backend loaded_home) \<and>
   state_after (handleProcess backend_list_down typed_form) =
     state_after (handleProcess sample_backend typed_form) \<and>
   form_messages (state_after (handleProcess backend_list_down typed_form)) =
     [ResultBox True (lit ''done'')]"
proof -
  have e: "process_endpoint b \<lparr>url = trim (processUrl_input typed_form)\<rparr> =
      Inr \<lparr>success = True, article_id = Some (lit ''abc123''), message = lit ''done'',
           result_qa_scores = None\<rparr>"
    if "process_endpoint b = process_endpoint sample_backend" for b
    using that by (simp add: sample_backend_def)
  have p: "process_endpoint backend_list_down = process_endpoint sample_backend"
    by (simp add: backend_list_down_def)
  have h1: "state_after (handleProcess backend_list_down typed_form) =
     (state_after (fetchArticles backend_list_down typed_form))
       \<lparr>processUrl_input := [], processing := False,
        processResult := Some \<lparr>success = True, article_id = Some (lit ''abc123''),
           message = lit ''done'', result_qa_scores = None\<rparr>,
        processError := None\<rparr>"
    by (rule handleProcess_success [OF typed_form_truthy e [OF p]]) simp
  have h2: "state_after (handleProcess sample_backend typed_form) =
     (state_after (fetchArticles sample_backend typed_form))
       \<lparr>processUrl_input := [], processing := False,
        processResult := Some \<lparr>success = True, article_id = Some (lit ''abc123''),
           message = lit ''done'', result_qa_scores = None\<rparr>,
        processError := None\<rparr>"
    by (rule handleProcess_success [OF typed_form_truthy e]) simp_all
  have f1: "fetchArticles backend_list_down loaded_home =
      \<lparr>state_after = loaded_home\<lparr>loading := False\<rparr>,
       sent = [GET_articles 1 12 None None], logged = [network_error]\<rparr>"
    by (rule fetchArticles_Inl) (rule loaded_home_calls)
  have f2: "state_after (fetchArticles sample_backend loaded_home) =
      loaded_home\<lparr>loading := False\<rparr>"
    using fetchArticles_Inr [OF loaded_home_calls(2)] by (simp add: loaded_home_refetched)
  show ?thesis
    by (simp add: loaded_home_calls f1 f2 h1 h2 typed_form_refresh form_messages_def)
qed

section \<open>Page navigation\<close>

text \<open>
  C5, as the code has it. "Previous" does nothing at page 1 and, when the pagination block
  is rendered and the page is above 1, takes one off the page. "Next" does nothing at the
  last page \<open>ceil(total / 12)\<close>; when the block is rendered it adds one to a page below
  the last page, and brings a page beyond the last page back to the last page. When the
  block is not rendered (\<open>ceil(total / 12) \<le> 1\<close>) neither button exists. A page within
  1 and the last page stays there; and in every run of the page from its mount, whatever
  the backend answers, the page is at least 1.
\<close>

theorem page_navigation:
  "(page s = 1 \<longrightarrow> clickPrevious s = s) \<and>
   (pagination_shown s \<and> 1 < page s \<longrightarrow> clickPrevious s = s\<lparr>page := page s - 1\<rparr>) \<and>
   (page s = totalPages s \<longrightarrow> clickNext s = s) \<and>
   (pagination_shown s \<and> page s < totalPages s \<longrightarrow> clickNext s = s\<lparr>page := page s + 1\<rparr>) \<and>
   (pagination_shown s \<and> totalPages s < page s \<longrightarrow> clickNext s = s\<lparr>page := totalPages s\<rparr>) \<and>
   (\<not> pagination_shown s \<longrightarrow> clickPrevious s = s \<and> clickNext s = s) \<and>
   (1 \<le> page s \<and> page s \<le> totalPages s \<longrightarrow>
      1 \<le> page (clickPrevious s) \<and> page (clickPrevious s) \<le> totalPages (clickPrevious s) \<and>
      1 \<le> page (clickNext s) \<and> page (clickNext s) \<le> totalPages (clickNext s)) \<and>
   1 \<le> page (view (run_events b (mount b q) evs))"
proof -
  have "1 \<le> page (view (run_events b (mount b q) evs))"
    by (rule run_events_lower) (simp add: mount_page)
  then show ?thesis
    by (auto simp: clickPrevious_def clickNext_def)
qed


theorem page_navigation_witness:
  "page loaded_home = 1 \<and> pagination_shown loaded_home \<and>
   page loaded_home < totalPages loaded_home \<and>
   clickPrevious loaded_home = loaded_home \<and>
   clickNext loaded_home = loaded_home\<lparr>page := 2\<rparr> \<and>
   1 < page (loaded_home\<lparr>page := 3\<rparr>) \<and>
   page (loaded_home\<lparr>page := 3\<rparr>) = totalPages (loaded_home\<lparr>page := 3\<rparr>) \<and>
   clickPrevious (loaded_home\<lparr>page := 3\<rparr>) = loaded_home\<lparr>page := 2\<rparr> \<and>
   clickNext (loaded_home\<lparr>page := 3\<rparr>) = loaded_home\<lparr>page := 3\<rparr> \<and>
   totalPages (loaded_home\<lparr>page := 5\<rparr>) < page (loaded_home\<lparr>page := 5\<rparr>) \<and>
   clickNext (loaded_home\<lparr>page := 5\<rparr>) = loaded_home\<lparr>page := 3\<rparr> \<and>
   \<not> pagination_shown (home_init []) \<and>
   clickNext (home_init []) = home_init [] \<and>
   1 \<le> page (view (run_events sample_backend (mount sample_backend []) race_trace))"
  using page_navigation [of loaded_home sample_backend "[]" race_trace]
    page_navigation [of "loaded_home\<lparr>page := 3\<rparr>" sample_backend "[]" "[]"]
    page_navigation [of "loaded_home\<lparr>page := 5\<rparr>" sample_backend "[]" "[]"]
    page_navigation [of "home_init []" sample_backend "[]" "[]"]
  by (simp add: pagination_shown_def totalPages_div loaded_home_def home_init_def)

text \<open>
  C5 as stated fails where the page is not within 1 and the last page. In the first state
  of the page (page 1, total 0) the last page is 0, and "Next" does not add one: the
  block is not rendered. And when the total has dropped to 13 while page 3 is shown, the
  last page is 2, "Next" is enabled and takes the page from 3 to 2.
\<close>

theorem navigation_outside_range:
  "page (home_init []) \<noteq> totalPages (home_init []) \<and>
   page (clickNext (home_init [])) \<noteq> page (home_init []) + 1 \<and>
   \<not> page (home_init []) \<le> totalPages (home_init []) \<and>
   page (view (run_events shrinking_backend (mount shrinking_backend [])
      shrinking_trace)) = 3 \<and>
   totalPages (view (run_events shrinking_backend (mount shrinking_backend [])
      shrinking_trace)) = 2 \<and>
   page (view (run_events shrinking_backend (mount shrinking_backend [])
      (shrinking_trace @ [Next]))) = 2"
  using shrinking_run
  by (simp add: clickNext_def pagination_shown_def totalPages_div home_init_def)

section \<open>The submission form after a submission\<close>





section \<open>The article page without an id\<close>




section \<open>The language badge\<close>

text \<open>
  C8, as the code has it: the label is a function of the language code alone, with two
  values: the Arabic label for the code \<open>ar\<close> and "English" for every other code. The
  badge of the detail page is this label, followed by the dialect in parentheses when the
  article has one that is not empty.
\<close>

theorem language_badge_two_labels:
  "(language a = lit ''ar'' \<longrightarrow> list_language_badge a = arabic_label) \<and>
   (language a \<noteq> lit ''ar'' \<longrightarrow> list_language_badge a = lit ''English'') \<and>
   (dialect a = None \<or> dialect a = Some [] \<longrightarrow>
      detail_language_badge a = list_language_badge a) \<and>
   (\<forall>d. dialect a = Some d \<and> d \<noteq> [] \<longrightarrow>
      detail_language_badge a = list_language_badge a @ lit '' ('' @ d @ lit '')'')"
  by (auto simp: list_language_badge_def detail_language_badge_def truthy_def)

theorem language_badge_two_labels_witness:
  "language (sample_article\<lparr>language := lit ''ar'', dialect := Some (lit ''Egyptian'')\<rparr>) =
     lit ''ar'' \<and>
   detail_language_badge
     (sample_article\<lparr>language := lit ''ar'', dialect := Some (lit ''Egyptian'')\<rparr>) =
     [0x627, 0x644, 0x639, 0x631, 0x628, 0x64A, 0x629] @ lit '' (Egyptian)'' \<and>
   language sample_article \<noteq> lit ''ar'' \<and> dialect sample_article = None \<and>
   list_language_badge sample_article = lit ''English'' \<and>
   detail_language_badge sample_article = lit ''English''"
proof -
  have n: "lit ''en'' \<noteq> lit ''ar''" "lit ''Egyptian'' \<noteq> []" by (simp_all add: lit_def)
  show ?thesis
    using language_badge_two_labels [of sample_article]
      language_badge_two_labels
        [of "sample_article\<lparr>language := lit ''ar'', dialect := Some (lit ''Egyptian'')\<rparr>"]
    by (simp add: n sample_article_def arabic_label_def) (simp add: lit_def)
qed

text \<open>
  C8 as stated has an unmapped code shown as itself. The code \<open>fr\<close> is not mapped, and
  both badges show "English" for it.
\<close>

theorem unmapped_language_shown_as_English:
  "list_language_badge (sample_article\<lparr>language := lit ''fr''\<rparr>) = lit ''English'' \<and>
   detail_language_badge (sample_article\<lparr>language := lit ''fr''\<rparr>) = lit ''English'' \<and>
   lit ''English'' \<noteq> language (sample_article\<lparr>language := lit ''fr''\<rparr>)"
  by (simp add: list_language_badge_def detail_language_badge_def sample_article_def lit_def)

section \<open>The summary of a list card\<close>

text \<open>
  C9: a summary of at most 150 code units is shown as it is (for the empty summary, as for
  a missing one, no paragraph is rendered); a longer one is shown as its first 150 code
  units followed by three full stops, 153 code units in all. \<open>card_summary\<close> reads the
  article and returns a new string; the summary of the article is not written to.
\<close>

theorem card_summary_truncation:
  "(summary a = None \<or> summary a = Some [] \<longrightarrow> card_summary a = None) \<and>
   (summary a = Some s \<and> s \<noteq> [] \<and> length s \<le> 150 \<longrightarrow> card_summary a = Some s) \<and>
   (summary a = Some s \<and> 150 < length s \<longrightarrow>
      card_summary a = Some (take 150 s @ [0x2E, 0x2E, 0x2E]) \<and>
      length (take 150 s @ [0x2E, 0x2E, 0x2E :: 16 word]) = 153)"
  by (auto simp: card_summary_def truthy_def lit_def)

theorem card_summary_truncation_witness:
  "summary sample_article = None \<and> card_summary sample_article = None \<and>
   summary (sample_article\<lparr>summary := Some (replicate 150 0x61)\<rparr>) =
     Some (replicate 150 0x61) \<and>
   card_summary (sample_article\<lparr>summary := Some (replicate 150 0x61)\<rparr>) =
     Some (replicate 150 0x61) \<and>
   150 < length (replicate 151 (0x61 :: 16 word)) \<and>
   card_summary (sample_article\<lparr>summary := Some (replicate 151 0x61)\<rparr>) =
     Some (replicate 150 0x61 @ [0x2E, 0x2E, 0x2E])"
  using card_summary_truncation [of sample_article]
    card_summary_truncation [of "sample_article\<lparr>summary := Some (replicate 150 0x61)\<rparr>"
      "replicate 150 0x61"]
    card_summary_truncation [of "sample_article\<lparr>summary := Some (replicate 151 0x61)\<rparr>"
      "replicate 151 0x61"]
  by (simp add: sample_article_def)

section \<open>The colours of the quality bars\<close>

text \<open>
  C10: the bars for readability, coherence, neutrality and human-likeness take their
  colour from the score, the bar for redundancy takes it from \<open>100 - redundancy\<close> as the
  program computes it (the difference rounded to a binary64 value), and the number beside
  each bar (as its width) is the score itself, redundancy included. \<open>getScoreColor\<close> has
  three bands: from 75, from 50, and below.
\<close>

theorem redundancy_bar_inverted:
  "map scoreLabel (score_items q) =
     [lit ''Readability'', lit ''Coherence'', lit ''Redundancy'', lit ''Neutrality'',
      lit ''Human-likeness''] \<and>
   map backgroundColor (score_items q) =
     [getScoreColor (readability q), getScoreColor (coherence q),
      getScoreColor (double_sub 100 (redundancy q)), getScoreColor (neutrality q),
      getScoreColor (human_likeness q)] \<and>
   double_sub 100 (redundancy q) = to_double (100 - redundancy q) \<and>
   map scoreValue (score_items q) =
     [readability q, coherence q, redundancy q, neutrality q, human_likeness q] \<and>
   map width (score_items q) =
     [readability q, coherence q, redundancy q, neutrality q, human_likeness q] \<and>
   (75 \<le> x \<longrightarrow> getScoreColor x = lit ''#10b981'') \<and>
   (50 \<le> x \<and> x < 75 \<longrightarrow> getScoreColor x = lit ''#f59e0b'') \<and>
   (x < 50 \<longrightarrow> getScoreColor x = lit ''#ef4444'')"
  by (simp add: score_items_def getScoreColor_def double_sub_def)

theorem redundancy_bar_inverted_witness:
  "(75::real) \<le> double_sub 100 (redundancy (scores_with_redundancy 10)) \<and>
   (50::real) \<le> 60 \<and> (60::real) < 75 \<and> (40::real) < 50 \<and>
   map backgroundColor (score_items (scores_with_redundancy 10)) =
     [lit ''#10b981'', lit ''#f59e0b'', lit ''#10b981'', lit ''#ef4444'', lit ''#10b981''] \<and>
   map scoreValue (score_items (scores_with_redundancy 10)) = [80, 60, 10, 40, 75] \<and>
   map backgroundColor (score_items (scores_with_redundancy 90)) =
     [lit ''#10b981'', lit ''#f59e0b'', lit ''#ef4444'', lit ''#ef4444'', lit ''#10b981''] \<and>
   map scoreValue (score_items (scores_with_redundancy 90)) = [80, 60, 90, 40, 75] \<and>
   100 - just_above_25 < 75 \<and>
   map backgroundColor (score_items (scores_with_redundancy just_above_25)) =
     [lit ''#10b981'', lit ''#f59e0b'', lit ''#10b981'', lit ''#ef4444'', lit ''#10b981'']"
proof -
  have c: "getScoreColor 90 = lit ''#10b981''" "getScoreColor 80 = lit ''#10b981''"
      "getScoreColor 75 = lit ''#10b981''" "getScoreColor 60 = lit ''#f59e0b''"
      "getScoreColor 40 = lit ''#ef4444''" "getScoreColor 10 = lit ''#ef4444''"
    using redundancy_bar_inverted [of _ 90] redundancy_bar_inverted [of _ 80]
      redundancy_bar_inverted [of _ 75] redundancy_bar_inverted [of _ 60]
      redundancy_bar_inverted [of _ 40] redundancy_bar_inverted [of _ 10]
    by simp_all
  have r: "redundancy (scores_with_redundancy z) = z"
      "readability (scores_with_redundancy z) = 80"
      "coherence (scores_with_redundancy z) = 60"
      "neutrality (scores_with_redundancy z) = 40"
      "human_likeness (scores_with_redundancy z) = 75" for z
    by (simp_all add: scores_with_redundancy_def)
  have a: "map backgroundColor (score_items (scores_with_redundancy z)) =
      [lit ''#10b981'', lit ''#f59e0b'', getScoreColor (double_sub 100 z), lit ''#ef4444'',
       lit ''#10b981'']"
     "map scoreValue (score_items (scores_with_redundancy z)) = [80, 60, z, 40, 75]" for z
    using redundancy_bar_inverted [of "scores_with_redundancy z" 0]
    by (simp_all add: r c)
  show ?thesis
    by (simp add: a r c double_sub_100_10 double_sub_100_90 double_sub_100_above_25)
qed

end
